theory Spec2Isabelle
  imports Main "HOL-Library.Sublist"
begin

section \<open>Data model\<close>

subsection \<open>Exceptions\<close>

text \<open>
  Every exception the two modules raise, catch or let pass is a value of \<open>error\<close>; a
  function that can raise returns \<open>error + 'a\<close>, with \<open>Inl\<close> for the raised exception.
  \<open>MissingPluginException name message\<close>, \<open>IncompatiblePluginException name required actual\<close>
  and \<open>UnspecifiedPluginNameException name\<close> carry the constructor arguments the source
  passes. \<open>ImportError\<close> is what the import primitive raises for a module it cannot find,
  \<open>TypeError\<close> what Python raises for \<^verbatim>\<open>raise None\<close>, \<open>ValueError\<close> what
  \<^verbatim>\<open>list.remove\<close> raises for an absent element, and \<open>OtherException\<close> stands for
  anything else a collaborator may raise.
\<close>

datatype error =
    ImportError string
  | MissingPluginException string string
  | IncompatiblePluginException string string string
  | UnspecifiedPluginNameException string
  | TypeError string
  | ValueError string
  | OtherException string

text \<open>
  Modelled from the spec: the class hierarchy of \<^verbatim>\<open>pybuilder.errors\<close>, which decides
  what \<^verbatim>\<open>except MissingPluginException\<close> catches, is not part of the two source files.
  The spec's taxonomy lists MissingPluginError, IncompatiblePluginError and
  UnspecifiedPluginNameError as three separate errors, only the first of which is
  recoverable, so only \<open>MissingPluginException\<close> itself is an instance here.
\<close>

fun isinstance_MissingPluginException :: "error \<Rightarrow> bool" where
  "isinstance_MissingPluginException (MissingPluginException n m) = True"
| "isinstance_MissingPluginException e = False"

subsection \<open>Objects the graph assembler inspects\<close>

text \<open>
  What the assembler reads of a callable object: its identity, the value of
  \<^verbatim>\<open>NAME_ATTRIBUTE\<close> and the value of \<^verbatim>\<open>__name__\<close>, each \<open>None\<close> when the object has
  no such attribute.
\<close>

record pyobject =
  obj_id :: nat
  name_attr :: "string option"
  dunder_name :: "string option"

text \<open>
  A dependency target is a task name or a reference to a callable. An \<^verbatim>\<open>optional\<close>
  wrapper yields, when called, one target or a sequence of targets; \<open>as_list\<close> (from
  \<^verbatim>\<open>pybuilder.utils\<close>) turns either into a list. The decorators store the
  \<^verbatim>\<open>depends\<close> and \<^verbatim>\<open>dependents\<close> attributes as sequences of entries, each a plain
  target or an \<^verbatim>\<open>optional\<close> wrapper.
\<close>

datatype target = TStr string | TObj pyobject

datatype payload = Single target | Several "target list"

datatype dep_item = Plain target | Optional payload

fun as_list :: "payload \<Rightarrow> target list" where
  "as_list (Single t) = [t]"
| "as_list (Several ts) = ts"

record task_dependency =
  td_name :: target
  td_optional :: bool

text \<open>
  A candidate is one attribute of the scanned module. A role marker is \<open>None\<close> when the
  attribute is absent and \<open>Some b\<close> with the truth value of the attribute otherwise; the
  other fields are \<open>None\<close> when \<^verbatim>\<open>hasattr\<close> is false.
\<close>

record candidate =
  c_obj :: pyobject
  task_attr :: "bool option"
  depends_attr :: "dep_item list option"
  dependents_attr :: "dep_item list option"
  description_attr :: "string option"
  action_attr :: "bool option"
  before_attr :: "string list option"
  after_attr :: "string list option"
  only_once_attr :: "bool option"
  teardown_attr :: "bool option"
  initializer_attr :: "bool option"
  environments_attr :: "string list option"

record task =
  t_name :: "string option"
  t_callable :: pyobject
  t_dependencies :: "task_dependency list"
  t_description :: string

record action =
  a_name :: "string option"
  a_callable :: pyobject
  a_before :: "string list option"
  a_after :: "string list option"
  a_description :: string
  a_only_once :: bool
  a_teardown :: bool

record initializer =
  i_name :: "string option"
  i_callable :: pyobject
  i_environments :: "string list"
  i_description :: string

datatype registration =
    RegisterTask task
  | RegisterAction action
  | RegisterInitializer initializer

text \<open>
  An imported module: its \<^verbatim>\<open>pyb_version\<close> attribute (\<open>None\<close> when absent) and its
  attributes in the order \<^verbatim>\<open>dir\<close> lists them.
\<close>

record pymodule =
  pyb_version_attr :: "string option"
  members :: "candidate list"

subsection \<open>Collaborators and the state they act on\<close>

datatype level = DEBUG | INFO | ERROR

datatype logarg =
    LStr string
  | LName "string option"
  | LDeps "task_dependency list"
  | LExc error

text \<open>
  A log entry keeps the level, the message template and the values formatted into it;
  where the source builds the message from strings alone, the entry holds the finished
  message and no values.
\<close>

type_synonym log_entry = "level \<times> string \<times> logarg list"

text \<open>
  Everything outside the two modules is a parameter. \<open>'w\<close> is the state of the outside
  world (installed packages, the execution manager). \<open>import_module\<close> is
  \<^verbatim>\<open>__import__\<close> followed by the lookup in \<^verbatim>\<open>sys.modules\<close>; \<open>execute_command\<close> runs
  the installer and yields its exit status together with the lines \<^verbatim>\<open>read_file\<close>
  would read from the log file; \<open>specifier_contains req v\<close> is
  \<^verbatim>\<open>SpecifierSet(req, True).contains(v)\<close>; the three \<open>register\<close> functions are the
  execution manager's, \<open>None\<close> meaning that the call returned. The installer call
  itself is taken to return: a failed installation shows in its exit status.
\<close>

record 'w env =
  import_module :: "string \<Rightarrow> 'w \<Rightarrow> (error + pymodule) \<times> 'w"
  execute_command :: "string list \<Rightarrow> 'w \<Rightarrow> (int \<times> string list) \<times> 'w"
  specifier_contains :: "string \<Rightarrow> string \<Rightarrow> error + bool"
  PYB_VERSION :: string
  register_task :: "task \<Rightarrow> 'w \<Rightarrow> error option \<times> 'w"
  register_action :: "action \<Rightarrow> 'w \<Rightarrow> error option \<times> 'w"
  register_initializer :: "initializer \<Rightarrow> 'w \<Rightarrow> error option \<times> 'w"

text \<open>
  The state the loaders and the assembler thread through: the world, the logger's
  output, and three traces of the calls made to the collaborators (names passed to the
  import primitive, commands run, objects handed to the execution manager).
\<close>

record 'w ctx =
  world :: 'w
  logged :: "log_entry list"
  imported :: "string list"
  commands :: "string list list"
  registered :: "registration list"

definition logger_log :: "level \<Rightarrow> string \<Rightarrow> logarg list \<Rightarrow> 'w ctx \<Rightarrow> 'w ctx" where
  "logger_log lvl msg args s = s\<lparr>logged := logged s @ [(lvl, msg, args)]\<rparr>"

definition py_import :: "'w env \<Rightarrow> string \<Rightarrow> 'w ctx \<Rightarrow> (error + pymodule) \<times> 'w ctx" where
  "py_import env n s =
     (case import_module env n (world s) of
        (r, w') \<Rightarrow> (r, s\<lparr>world := w', imported := imported s @ [n]\<rparr>))"

definition run_command :: "'w env \<Rightarrow> string list \<Rightarrow> 'w ctx \<Rightarrow> (int \<times> string list) \<times> 'w ctx" where
  "run_command env cmd s =
     (case execute_command env cmd (world s) of
        (r, w') \<Rightarrow> (r, s\<lparr>world := w', commands := commands s @ [cmd]\<rparr>))"

section \<open>pluginloader.py\<close>

subsection \<open>Strings\<close>

definition PYPI_PLUGIN_PROTOCOL :: string where
  "PYPI_PLUGIN_PROTOCOL = ''pypi:''"

definition VCS_PLUGIN_PROTOCOL :: string where
  "VCS_PLUGIN_PROTOCOL = ''vcs:''"

definition startswith :: "string \<Rightarrow> string \<Rightarrow> bool" where
  "startswith s p = prefix p s"

text \<open>
  \<^verbatim>\<open>s.replace(old, new)\<close> replaces every occurrence of \<open>old\<close>, scanning from the left.
  The source only calls it with a non-empty \<open>old\<close>.
\<close>

function str_replace :: "string \<Rightarrow> string \<Rightarrow> string \<Rightarrow> string" where
  "str_replace old new [] = []"
| "str_replace old new (c # cs) =
     (if old \<noteq> [] \<and> prefix old (c # cs)
      then new @ str_replace old new (drop (length old) (c # cs))
      else c # str_replace old new cs)"
  by pat_completeness auto
termination
  by (relation "measure (\<lambda>(old, new, s). length s)") (auto simp: neq_Nil_conv)

text \<open>Truth value of an optional string: \<open>None\<close> and the empty string are false.\<close>

fun truthy :: "string option \<Rightarrow> bool" where
  "truthy None = False"
| "truthy (Some v) = (v \<noteq> [])"

subsection \<open>Version gate\<close>

definition check_plugin_version :: "'w env \<Rightarrow> pymodule \<Rightarrow> string \<Rightarrow> error + unit" where
  "check_plugin_version env plugin_module plugin_name =
     (case pyb_version_attr plugin_module of
        None \<Rightarrow> Inr ()
      | Some req \<Rightarrow>
          if req = [] then Inr ()
          else (case specifier_contains env req (PYB_VERSION env) of
                  Inl e \<Rightarrow> Inl e
                | Inr True \<Rightarrow> Inr ()
                | Inr False \<Rightarrow>
                    Inl (IncompatiblePluginException plugin_name req (PYB_VERSION env))))"

text \<open>
  \<^verbatim>\<open>_load_plugin\<close>: the import and the version check are both inside the \<^verbatim>\<open>try\<close>;
  only an ImportError is turned into a MissingPluginException.
\<close>

definition load_plugin :: "'w env \<Rightarrow> string \<Rightarrow> string \<Rightarrow> 'w ctx \<Rightarrow> (error + pymodule) \<times> 'w ctx" where
  "load_plugin env plugin_module_name plugin_name s =
     (case (case py_import env plugin_module_name s of
              (Inl e, s1) \<Rightarrow> (Inl e, s1)
            | (Inr plugin_module, s1) \<Rightarrow>
                (case check_plugin_version env plugin_module plugin_name of
                   Inl e \<Rightarrow> (Inl e, s1)
                 | Inr u \<Rightarrow> (Inr plugin_module, s1)))
      of (Inl (ImportError import_error), s2) \<Rightarrow>
           (Inl (MissingPluginException plugin_name import_error), s2)
       | (r, s2) \<Rightarrow> (r, s2))"

subsection \<open>Loaders\<close>

text \<open>
  A loader takes the plugin name, the version and the module name (the project argument
  is never read by any loader and is left out) and returns the module, or \<open>None\<close> where
  the Python returns \<^verbatim>\<open>None\<close>.
\<close>

type_synonym 'w loader =
  "string \<Rightarrow> string option \<Rightarrow> string option \<Rightarrow> 'w ctx \<Rightarrow> (error + pymodule option) \<times> 'w ctx"

definition builtin_load_plugin :: "'w env \<Rightarrow> 'w loader" where
  "builtin_load_plugin env name version plugin_module_name s =
     (let s1 = logger_log DEBUG (''Trying to load builtin plugin '%s'' @ [CHR 0x27]) [LStr name] s;
          builtin_plugin_name =
            (if truthy plugin_module_name then the plugin_module_name
             else ''pybuilder.plugins.'' @ name @ ''_plugin'')
      in case load_plugin env builtin_plugin_name name s1 of
           (Inl e, s2) \<Rightarrow> (Inl e, s2)
         | (Inr plugin_module, s2) \<Rightarrow>
             (Inr (Some plugin_module),
              logger_log DEBUG (''Found builtin plugin '%s'' @ [CHR 0x27]) [LStr builtin_plugin_name] s2))"

definition thirdparty_load_plugin :: "'w env \<Rightarrow> 'w loader" where
  "thirdparty_load_plugin env name version plugin_module_name s =
     (case (if startswith name PYPI_PLUGIN_PROTOCOL
            then Inr (str_replace PYPI_PLUGIN_PROTOCOL [] name)
            else if startswith name VCS_PLUGIN_PROTOCOL
            then (if \<not> truthy plugin_module_name
                  then Inl (UnspecifiedPluginNameException name)
                  else Inr (the plugin_module_name))
            else Inr name)
      of Inl e \<Rightarrow> (Inl e, s)
       | Inr thirdparty_plugin \<Rightarrow>
           (let s1 = logger_log DEBUG (''Trying to load third party plugin '%s'' @ [CHR 0x27])
                       [LStr thirdparty_plugin] s
            in case load_plugin env thirdparty_plugin name s1 of
                 (Inl e, s2) \<Rightarrow> (Inl e, s2)
               | (Inr plugin_module, s2) \<Rightarrow>
                   (Inr (Some plugin_module),
                    logger_log DEBUG (''Found third party plugin '%s'' @ [CHR 0x27])
                      [LStr thirdparty_plugin] s2)))"

text \<open>
  The package reference handed to the installer, for a name that carries one of the two
  protocols: the protocol is removed, and for \<^verbatim>\<open>pypi:\<close> a given version is appended.
\<close>

definition pip_package :: "string \<Rightarrow> string option \<Rightarrow> string" where
  "pip_package name version =
     (if startswith name PYPI_PLUGIN_PROTOCOL
      then str_replace PYPI_PLUGIN_PROTOCOL [] name
             @ (if truthy version then the version else [])
      else str_replace VCS_PLUGIN_PROTOCOL [] name)"

definition install_cmd :: "string \<Rightarrow> string option \<Rightarrow> string list" where
  "install_cmd name version = [''pip'', ''install'', ''--upgrade'', pip_package name version]"

definition install_external_plugin ::
  "'w env \<Rightarrow> string \<Rightarrow> string option \<Rightarrow> string option \<Rightarrow> 'w ctx \<Rightarrow> (error + unit) \<times> 'w ctx" where
  "install_external_plugin env name version plugin_module_name s =
     (if \<not> startswith name PYPI_PLUGIN_PROTOCOL \<and> \<not> startswith name VCS_PLUGIN_PROTOCOL
      then (Inl (MissingPluginException name
                  ''Only plugins starting with '('pypi:', 'vcs:')' are currently supported''), s)
      else
        (case run_command env (install_cmd name version) s of
           ((result, log_lines), s1) \<Rightarrow>
             if result \<noteq> 0
             then (Inl (MissingPluginException name
                         (''Failed to install plugin from '' @ pip_package name version)),
                   logger_log ERROR
                     (''The following pip error was encountered:'' @ [CHR 0x0A] @ concat log_lines) [] s1)
             else (Inr (), s1)))"

definition display_name :: "string \<Rightarrow> string option \<Rightarrow> string" where
  "display_name name version =
     name @ (if truthy version then '' version '' @ the version else [])"

definition downloading_load_plugin :: "'w env \<Rightarrow> 'w loader" where
  "downloading_load_plugin env name version plugin_module_name s =
     (let s1 = logger_log INFO (''Downloading missing plugin '' @ display_name name version) [] s
      in case install_external_plugin env name version plugin_module_name s1 of
           (Inr u, s2) \<Rightarrow>
             thirdparty_load_plugin env name version plugin_module_name
               (logger_log INFO (''Installed plugin '' @ display_name name version @ ''.'') [] s2)
         | (Inl e, s2) \<Rightarrow>
             if isinstance_MissingPluginException e
             then (Inr None,
                   logger_log ERROR (''Could not install plugin {0}: {1}.'')
                     [LStr (display_name name version), LExc e] s2)
             else (Inl e, s2))"

text \<open>
  \<^verbatim>\<open>DispatchingPluginLoader.load_plugin\<close>: the loop over the loaders, with
  \<open>last_problem\<close> as its accumulator. When the loop ends, \<^verbatim>\<open>raise last_problem\<close> raises
  the stored exception, or a TypeError when it is still \<^verbatim>\<open>None\<close>.
\<close>

fun dispatching_loop :: "'w loader list \<Rightarrow> error option \<Rightarrow> 'w loader" where
  "dispatching_loop [] last_problem name version plugin_module_name s =
     (case last_problem of
        None \<Rightarrow> (Inl (TypeError ''exceptions must derive from BaseException''), s)
      | Some e \<Rightarrow> (Inl e, s))"
| "dispatching_loop (loader # rest) last_problem name version plugin_module_name s =
     (case loader name version plugin_module_name s of
        (Inr m, s1) \<Rightarrow> (Inr m, s1)
      | (Inl e, s1) \<Rightarrow>
          if isinstance_MissingPluginException e
          then dispatching_loop rest (Some e) name version plugin_module_name s1
          else (Inl e, s1))"

definition dispatching_load_plugin :: "'w loader list \<Rightarrow> 'w loader" where
  "dispatching_load_plugin loaders name version plugin_module_name s =
     dispatching_loop loaders None name version plugin_module_name s"

section \<open>reactor.py\<close>

subsection \<open>Graph assembly\<close>

definition normalize_candidate_name :: "pyobject \<Rightarrow> string option" where
  "normalize_candidate_name ob =
     (case name_attr ob of Some n \<Rightarrow> Some n | None \<Rightarrow> dunder_name ob)"

text \<open>
  \<open>injected_task_dependencies\<close> is a dictionary from normalized names to lists of
  dependencies. A normalized name is \<open>None\<close> for an object with neither name attribute.
\<close>

type_synonym injected = "string option \<rightharpoonup> task_dependency list"

fun add_task_dependency_loop :: "target list \<Rightarrow> pyobject \<Rightarrow> bool \<Rightarrow> injected \<Rightarrow> injected" where
  "add_task_dependency_loop [] depends_on opt itd = itd"
| "add_task_dependency_loop (n # ns) depends_on opt itd =
     (let name = (case n of TStr str \<Rightarrow> Some str | TObj ob \<Rightarrow> normalize_candidate_name ob);
          itd1 = (if name \<notin> dom itd then itd(name \<mapsto> []) else itd);
          itd2 = itd1(name \<mapsto> (case itd1 name of None \<Rightarrow> [] | Some ds \<Rightarrow> ds)
                                 @ [\<lparr>td_name = TObj depends_on, td_optional = opt\<rparr>])
      in add_task_dependency_loop ns depends_on opt itd2)"

definition add_task_dependency :: "payload \<Rightarrow> pyobject \<Rightarrow> bool \<Rightarrow> injected \<Rightarrow> injected" where
  "add_task_dependency names depends_on opt itd =
     add_task_dependency_loop (as_list names) depends_on opt itd"

fun dependents_loop :: "dep_item list \<Rightarrow> pyobject \<Rightarrow> injected \<Rightarrow> injected" where
  "dependents_loop [] cand itd = itd"
| "dependents_loop (d # ds) cand itd =
     dependents_loop ds cand
       (case d of
          Optional w \<Rightarrow> add_task_dependency w cand True itd
        | Plain t \<Rightarrow> add_task_dependency (Single t) cand False itd)"

definition has_role :: "bool option \<Rightarrow> bool" where
  "has_role marker = (marker = Some True)"

fun pass1 :: "candidate list \<Rightarrow> injected \<Rightarrow> injected" where
  "pass1 [] itd = itd"
| "pass1 (c # cs) itd =
     pass1 cs
       (if has_role (task_attr c)
        then (case dependents_attr c of
                None \<Rightarrow> itd
              | Some dependents \<Rightarrow>
                  if dependents = [] then itd else dependents_loop dependents (c_obj c) itd)
        else itd)"

fun depends_loop :: "dep_item list \<Rightarrow> task_dependency list \<Rightarrow> task_dependency list" where
  "depends_loop [] task_dependencies = task_dependencies"
| "depends_loop (d # ds) task_dependencies =
     depends_loop ds
       (case d of
          Optional w \<Rightarrow>
            task_dependencies @ map (\<lambda>item. \<lparr>td_name = item, td_optional = True\<rparr>) (as_list w)
        | Plain t \<Rightarrow> task_dependencies @ [\<lparr>td_name = t, td_optional = False\<rparr>])"

definition em_register_task :: "'w env \<Rightarrow> task \<Rightarrow> 'w ctx \<Rightarrow> error option \<times> 'w ctx" where
  "em_register_task env t s =
     (case register_task env t (world s) of
        (r, w') \<Rightarrow> (r, s\<lparr>world := w', registered := registered s @ [RegisterTask t]\<rparr>))"

definition em_register_action :: "'w env \<Rightarrow> action \<Rightarrow> 'w ctx \<Rightarrow> error option \<times> 'w ctx" where
  "em_register_action env a s =
     (case register_action env a (world s) of
        (r, w') \<Rightarrow> (r, s\<lparr>world := w', registered := registered s @ [RegisterAction a]\<rparr>))"

definition em_register_initializer :: "'w env \<Rightarrow> initializer \<Rightarrow> 'w ctx \<Rightarrow> error option \<times> 'w ctx" where
  "em_register_initializer env i s =
     (case register_initializer env i (world s) of
        (r, w') \<Rightarrow> (r, s\<lparr>world := w', registered := registered s @ [RegisterInitializer i]\<rparr>))"

text \<open>The task the second pass builds for a candidate carrying the task marker.\<close>

definition make_task :: "injected \<Rightarrow> candidate \<Rightarrow> task" where
  "make_task itd c =
     (let name = normalize_candidate_name (c_obj c);
          description = (case description_attr c of None \<Rightarrow> [] | Some d \<Rightarrow> d);
          task_dependencies =
            (case depends_attr c of
               None \<Rightarrow> []
             | Some dependencies \<Rightarrow>
                 if dependencies = [] then [] else depends_loop dependencies []);
          task_dependencies2 =
            (case itd name of
               Some ds \<Rightarrow> task_dependencies @ ds
             | None \<Rightarrow> task_dependencies)
      in \<lparr>t_name = name, t_callable = c_obj c, t_dependencies = task_dependencies2,
          t_description = description\<rparr>)"

definition make_action :: "candidate \<Rightarrow> action" where
  "make_action c =
     \<lparr>a_name = normalize_candidate_name (c_obj c), a_callable = c_obj c,
      a_before = before_attr c, a_after = after_attr c,
      a_description = (case description_attr c of None \<Rightarrow> [] | Some d \<Rightarrow> d),
      a_only_once = (case only_once_attr c of None \<Rightarrow> False | Some b \<Rightarrow> b),
      a_teardown = (case teardown_attr c of None \<Rightarrow> False | Some b \<Rightarrow> b)\<rparr>"

definition make_initializer :: "candidate \<Rightarrow> initializer" where
  "make_initializer c =
     \<lparr>i_name = normalize_candidate_name (c_obj c), i_callable = c_obj c,
      i_environments = (case environments_attr c of None \<Rightarrow> [] | Some es \<Rightarrow> es),
      i_description = (case description_attr c of None \<Rightarrow> [] | Some d \<Rightarrow> d)\<rparr>"

text \<open>The body of the second loop for one candidate: task, else action, else initializer.\<close>

definition collect_candidate :: "'w env \<Rightarrow> injected \<Rightarrow> candidate \<Rightarrow> 'w ctx \<Rightarrow> error option \<times> 'w ctx" where
  "collect_candidate env itd c s =
     (if has_role (task_attr c)
      then (let t = make_task itd c
            in em_register_task env t
                 (logger_log DEBUG ''Found task '%s' with dependencies %s''
                    [LName (t_name t), LDeps (t_dependencies t)] s))
      else if has_role (action_attr c)
      then em_register_action env (make_action c)
             (logger_log DEBUG ''Found action %s'' [LName (normalize_candidate_name (c_obj c))] s)
      else if has_role (initializer_attr c)
      then em_register_initializer env (make_initializer c) s
      else (None, s))"

fun pass2 :: "'w env \<Rightarrow> injected \<Rightarrow> candidate list \<Rightarrow> 'w ctx \<Rightarrow> (error + unit) \<times> 'w ctx" where
  "pass2 env itd [] s = (Inr (), s)"
| "pass2 env itd (c # cs) s =
     (case collect_candidate env itd c s of
        (Some e, s1) \<Rightarrow> (Inl e, s1)
      | (None, s1) \<Rightarrow> pass2 env itd cs s1)"

text \<open>
  \<^verbatim>\<open>dir(None)\<close> lists the attributes of \<^verbatim>\<open>NoneType\<close>; none of them carries a role
  marker, so neither loop does anything for them and they are left out.
\<close>

fun dir_members :: "pymodule option \<Rightarrow> candidate list" where
  "dir_members None = []"
| "dir_members (Some m) = members m"

definition collect_tasks_and_actions_and_initializers ::
  "'w env \<Rightarrow> pymodule option \<Rightarrow> 'w ctx \<Rightarrow> (error + unit) \<times> 'w ctx" where
  "collect_tasks_and_actions_and_initializers env project_module s =
     (let injected_task_dependencies = pass1 (dir_members project_module) Map.empty
      in pass2 env injected_task_dependencies (dir_members project_module) s)"

subsection \<open>Plugin bookkeeping\<close>

text \<open>
  The reactor: its plugin loader, the registry \<^verbatim>\<open>_plugins\<close>, and the state of its logger
  and collaborators. Importing a module does not call back into the reactor.
\<close>

record 'w reactor =
  plugin_loader :: "'w loader"
  plugins :: "string list"
  rctx :: "'w ctx"

definition default_plugin_loader :: "'w env \<Rightarrow> 'w loader" where
  "default_plugin_loader env =
     dispatching_load_plugin
       [builtin_load_plugin env, thirdparty_load_plugin env, downloading_load_plugin env]"

definition reactor_init :: "'w env \<Rightarrow> 'w loader option \<Rightarrow> 'w ctx \<Rightarrow> 'w reactor" where
  "reactor_init env loader s =
     \<lparr>plugin_loader = (case loader of None \<Rightarrow> default_plugin_loader env | Some l \<Rightarrow> l),
      plugins = [], rctx = s\<rparr>"

definition import_plugin ::
  "'w env \<Rightarrow> string \<Rightarrow> string option \<Rightarrow> string option \<Rightarrow> 'w reactor \<Rightarrow> (error + unit) \<times> 'w reactor" where
  "import_plugin env plugin version plugin_module_name r =
     (let s1 = logger_log DEBUG ''Loading plugin '%s'%s''
                 [LStr plugin, LStr (if truthy version then '' version '' @ the version else [])]
                 (rctx r)
      in case plugin_loader r plugin version plugin_module_name s1 of
           (Inl e, s2) \<Rightarrow> (Inl e, r\<lparr>rctx := s2\<rparr>)
         | (Inr plugin_module, s2) \<Rightarrow>
             (case collect_tasks_and_actions_and_initializers env plugin_module s2 of
                (res, s3) \<Rightarrow> (res, r\<lparr>rctx := s3\<rparr>)))"

definition require_plugin ::
  "'w env \<Rightarrow> string \<Rightarrow> string option \<Rightarrow> string option \<Rightarrow> 'w reactor \<Rightarrow> (error + unit) \<times> 'w reactor" where
  "require_plugin env plugin version plugin_module_name r =
     (if plugin \<notin> set (plugins r)
      then (case import_plugin env plugin version plugin_module_name
                   (r\<lparr>plugins := plugins r @ [plugin]\<rparr>) of
              (Inr u, r1) \<Rightarrow> (Inr (), r1)
            | (Inl e, r1) \<Rightarrow>
                if plugin \<in> set (plugins r1)
                then (Inl e, r1\<lparr>plugins := remove1 plugin (plugins r1)\<rparr>)
                else (Inl (ValueError ''list.remove(x): x not in list''), r1))
      else (Inr (), r))"


section \<open>Auxiliary definitions for the properties\<close>

subsection \<open>Version specifiers\<close>

text \<open>
  Modelled from the spec: \<^verbatim>\<open>SpecifierSet\<close> and \<^verbatim>\<open>Version\<close> come from the packaging
  library bundled with pip, which is not part of the source files. The spec describes the
  comparison as version-range semantics with inclusive and exclusive bounds. This model
  covers what the scenario of the version gate needs: a comma-separated list of clauses,
  each one of the operators \<open>>=\<close>, \<open><=\<close>, \<open>==\<close>, \<open>!=\<close>, \<open>>\<close>, \<open><\<close> followed by a dotted
  numeric release, compared segment by segment with missing segments read as zero.
  Anything else is reported as invalid.
\<close>

fun split_on :: "char \<Rightarrow> string \<Rightarrow> string list" where
  "split_on sep [] = [[]]"
| "split_on sep (c # cs) =
     (if c = sep then [] # split_on sep cs
      else (case split_on sep cs of
              [] \<Rightarrow> [[c]]
            | w # ws \<Rightarrow> (c # w) # ws))"

definition strip :: "string \<Rightarrow> string" where
  "strip s = rev (dropWhile (\<lambda>c. c = CHR '' '') (rev (dropWhile (\<lambda>c. c = CHR '' '') s)))"

definition digit_of :: "char \<Rightarrow> nat option" where
  "digit_of c =
     (let n = (of_char c :: nat) in if 48 \<le> n \<and> n \<le> 57 then Some (n - 48) else None)"

fun parse_digits :: "string \<Rightarrow> nat \<Rightarrow> nat option" where
  "parse_digits [] acc = Some acc"
| "parse_digits (c # cs) acc =
     (case digit_of c of None \<Rightarrow> None | Some d \<Rightarrow> parse_digits cs (10 * acc + d))"

definition parse_number :: "string \<Rightarrow> nat option" where
  "parse_number s = (if s = [] then None else parse_digits s 0)"

fun parse_segments :: "string list \<Rightarrow> nat list option" where
  "parse_segments [] = Some []"
| "parse_segments (w # ws) =
     (case parse_number w of
        None \<Rightarrow> None
      | Some n \<Rightarrow> (case parse_segments ws of None \<Rightarrow> None | Some ns \<Rightarrow> Some (n # ns)))"

definition parse_release :: "string \<Rightarrow> nat list option" where
  "parse_release s = parse_segments (split_on CHR ''.'' s)"

fun release_less :: "nat list \<Rightarrow> nat list \<Rightarrow> bool" where
  "release_less [] [] = False"
| "release_less [] (y # ys) = (0 < y \<or> release_less [] ys)"
| "release_less (x # xs) [] = False"
| "release_less (x # xs) (y # ys) = (x < y \<or> (x = y \<and> release_less xs ys))"

fun release_eq :: "nat list \<Rightarrow> nat list \<Rightarrow> bool" where
  "release_eq [] [] = True"
| "release_eq [] (y # ys) = (y = 0 \<and> release_eq [] ys)"
| "release_eq (x # xs) [] = (x = 0 \<and> release_eq xs [])"
| "release_eq (x # xs) (y # ys) = (x = y \<and> release_eq xs ys)"

datatype comparison = GE | LE | EQ | NE | GT | LT

fun parse_operator :: "string \<Rightarrow> (comparison \<times> string) option" where
  "parse_operator (c1 # c2 # cs) =
     (if c1 = CHR ''>'' \<and> c2 = CHR ''='' then Some (GE, cs)
      else if c1 = CHR ''<'' \<and> c2 = CHR ''='' then Some (LE, cs)
      else if c1 = CHR ''='' \<and> c2 = CHR ''='' then Some (EQ, cs)
      else if c1 = CHR ''!'' \<and> c2 = CHR ''='' then Some (NE, cs)
      else if c1 = CHR ''>'' then Some (GT, c2 # cs)
      else if c1 = CHR ''<'' then Some (LT, c2 # cs)
      else None)"
| "parse_operator cs = None"

fun compare_release :: "comparison \<Rightarrow> nat list \<Rightarrow> nat list \<Rightarrow> bool" where
  "compare_release GE v b = (\<not> release_less v b)"
| "compare_release LE v b = (release_less v b \<or> release_eq v b)"
| "compare_release EQ v b = release_eq v b"
| "compare_release NE v b = (\<not> release_eq v b)"
| "compare_release GT v b = (\<not> release_less v b \<and> \<not> release_eq v b)"
| "compare_release LT v b = release_less v b"

definition specifier_holds :: "nat list \<Rightarrow> string \<Rightarrow> bool option" where
  "specifier_holds v clause =
     (case parse_operator (strip clause) of
        None \<Rightarrow> None
      | Some (cmp, rest) \<Rightarrow>
          (case parse_release (strip rest) of
             None \<Rightarrow> None
           | Some b \<Rightarrow> Some (compare_release cmp v b)))"

fun all_hold :: "nat list \<Rightarrow> string list \<Rightarrow> bool option" where
  "all_hold v [] = Some True"
| "all_hold v (c # cs) =
     (case specifier_holds v c of
        None \<Rightarrow> None
      | Some b \<Rightarrow> (case all_hold v cs of None \<Rightarrow> None | Some bs \<Rightarrow> Some (b \<and> bs)))"

definition release_specifier_contains :: "string \<Rightarrow> string \<Rightarrow> error + bool" where
  "release_specifier_contains req version =
     (case parse_release version of
        None \<Rightarrow> Inl (ValueError ''Invalid version'')
      | Some v \<Rightarrow>
          (case all_hold v (filter (\<lambda>c. strip c \<noteq> []) (split_on CHR '','' req)) of
             None \<Rightarrow> Inl (ValueError ''Invalid specifier'')
           | Some b \<Rightarrow> Inr b))"

subsection \<open>A run of loaders that all report a missing plugin\<close>

text \<open>
  \<open>missing_run loaders \<dots> s\<close> calls the loaders in order from state \<open>s\<close> and is
  \<open>Some (es, s')\<close> exactly when each of them raises a MissingPluginException; \<open>es\<close> lists
  those exceptions in order and \<open>s'\<close> is the state after the last call.
\<close>
fun missing_run ::
  "'w loader list \<Rightarrow> string \<Rightarrow> string option \<Rightarrow> string option \<Rightarrow> 'w ctx \<Rightarrow> (error list \<times> 'w ctx) option" where
  "missing_run [] name version plugin_module_name s = Some ([], s)"
| "missing_run (loader # rest) name version plugin_module_name s =
     (case loader name version plugin_module_name s of
        (Inr m, s1) \<Rightarrow> None
      | (Inl e, s1) \<Rightarrow>
          if isinstance_MissingPluginException e
          then (case missing_run rest name version plugin_module_name s1 of
                  None \<Rightarrow> None
                | Some (es, s2) \<Rightarrow> Some (e # es, s2))
          else None)"

subsection \<open>Dependency lists, as the specification words them\<close>

text \<open>
  The declared forward dependencies of a task are the entries of its \<^verbatim>\<open>depends\<close>
  attribute in declared order, an optional wrapper replaced by the targets it yields,
  each marked optional. The dependencies injected for a name are, over the task
  candidates in scanning order and over each one's \<^verbatim>\<open>dependents\<close> entries in order, one
  dependency on the declaring candidate for every target whose normalized name is that
  name.
\<close>
definition target_name :: "target \<Rightarrow> string option" where
  "target_name t = (case t of TStr str \<Rightarrow> Some str | TObj ob \<Rightarrow> normalize_candidate_name ob)"

fun resolve_item :: "dep_item \<Rightarrow> (target \<times> bool) list" where
  "resolve_item (Plain t) = [(t, False)]"
| "resolve_item (Optional w) = map (\<lambda>t. (t, True)) (as_list w)"

definition attr_items :: "dep_item list option \<Rightarrow> dep_item list" where
  "attr_items a = (case a of None \<Rightarrow> [] | Some ds \<Rightarrow> ds)"

definition declared_dependencies :: "candidate \<Rightarrow> task_dependency list" where
  "declared_dependencies c =
     concat (map (\<lambda>d. map (\<lambda>(t, opt). \<lparr>td_name = t, td_optional = opt\<rparr>) (resolve_item d))
                 (attr_items (depends_attr c)))"

definition dependents_edges :: "candidate \<Rightarrow> string option \<Rightarrow> task_dependency list" where
  "dependents_edges producer name =
     concat (map (\<lambda>d. map (\<lambda>(t, opt). \<lparr>td_name = TObj (c_obj producer), td_optional = opt\<rparr>)
                         (filter (\<lambda>(t, opt). target_name t = name) (resolve_item d)))
                 (attr_items (dependents_attr producer)))"

definition injected_dependencies :: "candidate list \<Rightarrow> string option \<Rightarrow> task_dependency list" where
  "injected_dependencies cs name =
     concat (map (\<lambda>producer. dependents_edges producer name)
                 (filter (\<lambda>c. has_role (task_attr c)) cs))"

definition dict_get :: "injected \<Rightarrow> string option \<Rightarrow> task_dependency list" where
  "dict_get itd k = (case itd k of None \<Rightarrow> [] | Some ds \<Rightarrow> ds)"

subsection \<open>Sequences of calls to the reactor\<close>




subsection \<open>The state in which the reactor calls its loader\<close>


section \<open>An example environment\<close>

text \<open>
  A small world for evaluating the model: the state of the world is the table of
  importable modules; the installer knows one package, \<open>good-plugin\<close>, whose installation
  makes a module of that name importable, and fails on everything else; the execution
  manager accepts every registration; the running version is 1.9.0.
\<close>

definition compile_task :: candidate where
  "compile_task =
     \<lparr>c_obj = \<lparr>obj_id = 1, name_attr = None, dunder_name = Some ''compile''\<rparr>,
      task_attr = Some True, depends_attr = None,
      dependents_attr = Some [Plain (TStr ''package''), Optional (Several [TStr ''publish'', TStr ''package''])],
      description_attr = None, action_attr = None, before_attr = None, after_attr = None,
      only_once_attr = None, teardown_attr = None, initializer_attr = None,
      environments_attr = None\<rparr>"

definition package_task :: candidate where
  "package_task =
     \<lparr>c_obj = \<lparr>obj_id = 2, name_attr = Some ''package'', dunder_name = Some ''do_package''\<rparr>,
      task_attr = Some True,
      depends_attr = Some [Plain (TStr ''prepare''), Optional (Single (TStr ''docs''))],
      dependents_attr = None,
      description_attr = Some ''Packages the project'', action_attr = None, before_attr = None,
      after_attr = None, only_once_attr = None, teardown_attr = None, initializer_attr = None,
      environments_attr = None\<rparr>"

definition example_module :: pymodule where
  "example_module = \<lparr>pyb_version_attr = None, members = [compile_task, package_task]\<rparr>"

definition versioned_module :: pymodule where
  "versioned_module = \<lparr>pyb_version_attr = Some ''>=2.0,<3.0'', members = []\<rparr>"

type_synonym example_world = "(string \<times> pymodule) list"

definition example_env :: "example_world env" where
  "example_env =
     \<lparr>import_module =
        (\<lambda>n w. (case map_of w n of
                   None \<Rightarrow> Inl (ImportError (''No module named '' @ n))
                 | Some m \<Rightarrow> Inr m, w)),
      execute_command =
        (\<lambda>cmd w. if cmd = [''pip'', ''install'', ''--upgrade'', ''good-plugin'']
                  then ((0, []), (''good-plugin'', example_module) # w)
                  else ((1, [''No matching distribution found'']), w)),
      specifier_contains = release_specifier_contains,
      PYB_VERSION = ''1.9.0'',
      register_task = (\<lambda>t w. (None, w)),
      register_action = (\<lambda>a w. (None, w)),
      register_initializer = (\<lambda>i w. (None, w))\<rparr>"

definition example_ctx :: "example_world \<Rightarrow> example_world ctx" where
  "example_ctx w = \<lparr>world = w, logged = [], imported = [], commands = [], registered = []\<rparr>"

section \<open>Properties\<close>

lemmas example_defs = example_env_def example_ctx_def builtin_load_plugin_def
  thirdparty_load_plugin_def downloading_load_plugin_def install_external_plugin_def
  run_command_def pip_package_def install_cmd_def display_name_def
  load_plugin_def py_import_def logger_log_def check_plugin_version_def startswith_def
  PYPI_PLUGIN_PROTOCOL_def VCS_PLUGIN_PROTOCOL_def dispatching_load_plugin_def Let_def


lemmas assembly_defs = collect_tasks_and_actions_and_initializers_def collect_candidate_def
  make_task_def has_role_def normalize_candidate_name_def add_task_dependency_def
  em_register_task_def logger_log_def example_env_def example_ctx_def example_module_def
  compile_task_def package_task_def Let_def

subsection \<open>The dispatching loader\<close>

text \<open>
  Loaders that raise a MissingPluginException are skipped: the loop continues with the
  rest of the list, remembering the last such exception.
\<close>

lemma dispatching_loop_skips:
  "missing_run ls name v m s = Some (es, s1) \<Longrightarrow>
   dispatching_loop (ls @ rest) lp name v m s =
   dispatching_loop rest (if es = [] then lp else Some (last es)) name v m s1"
proof (induction ls arbitrary: s lp es)
  case Nil
  then show ?case by simp
next
  case (Cons l ls)
  obtain r s' where l: "l name v m s = (r, s')" by (cases "l name v m s")
  from Cons.prems l obtain e where r: "r = Inl e" and e: "isinstance_MissingPluginException e"
    by (cases r) (auto split: if_splits)
  from Cons.prems l r e obtain es' where run: "missing_run ls name v m s' = Some (es', s1)"
    and es: "es = e # es'"
    by (auto split: option.splits)
  from Cons.IH [OF run, of "Some e"] show ?case
    using l r e es by simp
qed

text \<open>
  Claim C4. The dispatching loader tries its strategies in order. When the strategies
  before some strategy all raise a MissingPluginException and that strategy returns, the
  dispatching loader returns that strategy's result, in the state that strategy left; the
  earlier exceptions are dropped. When the list of strategies is not empty and every
  strategy raises a MissingPluginException, the dispatching loader raises the last of
  them.
\<close>

theorem dispatching_first_result:
  "(missing_run before name v m s = Some (es, s1) \<and> loader name v m s1 = (Inr result, s2)
      \<longrightarrow> dispatching_load_plugin (before @ loader # rest) name v m s = (Inr result, s2))
   \<and> (loaders \<noteq> [] \<and> missing_run loaders name v m s = Some (es, s1)
      \<longrightarrow> dispatching_load_plugin loaders name v m s = (Inl (last es), s1))"
proof (intro conjI impI)
  assume h: "missing_run before name v m s = Some (es, s1) \<and> loader name v m s1 = (Inr result, s2)"
  then show "dispatching_load_plugin (before @ loader # rest) name v m s = (Inr result, s2)"
    using dispatching_loop_skips [of before name v m s es s1 "loader # rest" None]
    by (simp add: dispatching_load_plugin_def)
next
  assume h: "loaders \<noteq> [] \<and> missing_run loaders name v m s = Some (es, s1)"
  then have "es \<noteq> []"
    by (cases loaders) (auto split: prod.splits sum.splits if_splits option.splits)
  with h show "dispatching_load_plugin loaders name v m s = (Inl (last es), s1)"
    using dispatching_loop_skips [of loaders name v m s es s1 "[]" None]
    by (simp add: dispatching_load_plugin_def)
qed

theorem dispatching_first_result_witness:
  "fst (the (missing_run [builtin_load_plugin example_env] ''myplugin'' None None
              (example_ctx [(''myplugin'', example_module)])))
     = [MissingPluginException ''myplugin'' ''No module named pybuilder.plugins.myplugin_plugin'']
   \<and> fst (dispatching_load_plugin [builtin_load_plugin example_env, thirdparty_load_plugin example_env]
            ''myplugin'' None None (example_ctx [(''myplugin'', example_module)]))
     = Inr (Some example_module)
   \<and> fst (dispatching_load_plugin [builtin_load_plugin example_env, thirdparty_load_plugin example_env]
            ''absent'' None None (example_ctx []))
     = Inl (MissingPluginException ''absent'' ''No module named absent'')"
proof -
  let ?s = "example_ctx [(''myplugin'', example_module)]"
  let ?A = "builtin_load_plugin example_env"
  let ?B = "thirdparty_load_plugin example_env"
  let ?s1 = "snd (?A ''myplugin'' None None ?s)"
  let ?es = "[MissingPluginException ''myplugin'' ''No module named pybuilder.plugins.myplugin_plugin'']"
  have a: "missing_run [?A] ''myplugin'' None None ?s = Some (?es, ?s1)"
    by (simp add: example_defs example_module_def)
  have b: "?B ''myplugin'' None None ?s1 = (Inr (Some example_module), snd (?B ''myplugin'' None None ?s1))"
    by (simp add: example_defs example_module_def)
  let ?t = "example_ctx []"
  let ?es2 = "[MissingPluginException ''absent'' ''No module named pybuilder.plugins.absent_plugin'',
               MissingPluginException ''absent'' ''No module named absent'']"
  have c: "missing_run [?A, ?B] ''absent'' None None ?t
             = Some (?es2, snd (?B ''absent'' None None (snd (?A ''absent'' None None ?t))))"
    by (simp add: example_defs example_module_def)
  have d: "[?A, ?B] \<noteq> []" by simp
  from dispatching_first_result [of "[?A]" "''myplugin''" None None ?s ?es ?s1 ?B
      "Some example_module" "snd (?B ''myplugin'' None None ?s1)" "[]"] a b
  have r1: "dispatching_load_plugin [?A, ?B] ''myplugin'' None None ?s
      = (Inr (Some example_module), snd (?B ''myplugin'' None None ?s1))"
    by simp
  have r2: "dispatching_load_plugin [?A, ?B] ''absent'' None None ?t
      = (Inl (last ?es2), snd (?B ''absent'' None None (snd (?A ''absent'' None None ?t))))"
    using dispatching_first_result [where loaders = "[?A, ?B]" and name = "''absent''"
        and v = None and m = None and s = ?t and es = ?es2
        and ?s1.0 = "snd (?B ''absent'' None None (snd (?A ''absent'' None None ?t)))"] c d
    by blast
  from a r1 r2 show ?thesis by simp
qed

text \<open>
  Claim C5. When a strategy raises an exception that is not a MissingPluginException,
  the strategies before it having raised MissingPluginExceptions, the dispatching loader
  raises that exception in the state this strategy left: whatever strategies follow are
  not called. IncompatiblePluginException and UnspecifiedPluginNameException are such
  exceptions.
\<close>

theorem dispatching_propagates_other_errors:
  "(missing_run before name v m s = Some (es, s1) \<and> loader name v m s1 = (Inl e, s2)
      \<and> \<not> isinstance_MissingPluginException e
      \<longrightarrow> dispatching_load_plugin (before @ loader # rest) name v m s = (Inl e, s2))
   \<and> \<not> isinstance_MissingPluginException (IncompatiblePluginException n required actual)
   \<and> \<not> isinstance_MissingPluginException (UnspecifiedPluginNameException n)"
proof (intro conjI impI)
  assume h: "missing_run before name v m s = Some (es, s1) \<and> loader name v m s1 = (Inl e, s2)
      \<and> \<not> isinstance_MissingPluginException e"
  then show "dispatching_load_plugin (before @ loader # rest) name v m s = (Inl e, s2)"
    using dispatching_loop_skips [of before name v m s es s1 "loader # rest" None]
    by (simp add: dispatching_load_plugin_def)
qed simp_all

theorem dispatching_propagates_other_errors_witness:
  "fst (the (missing_run [builtin_load_plugin example_env] ''vcs:https://example.org/plugin.git''
              None None (example_ctx [])))
     = [MissingPluginException ''vcs:https://example.org/plugin.git''
          ''No module named pybuilder.plugins.vcs:https://example.org/plugin.git_plugin'']
   \<and> \<not> isinstance_MissingPluginException
          (UnspecifiedPluginNameException ''vcs:https://example.org/plugin.git'')
   \<and> dispatching_load_plugin
         [builtin_load_plugin example_env, thirdparty_load_plugin example_env,
          downloading_load_plugin example_env]
         ''vcs:https://example.org/plugin.git'' None None (example_ctx [])
     = (Inl (UnspecifiedPluginNameException ''vcs:https://example.org/plugin.git''),
        snd (builtin_load_plugin example_env ''vcs:https://example.org/plugin.git'' None None
               (example_ctx [])))"
proof -
  let ?n = "''vcs:https://example.org/plugin.git''"
  let ?s = "example_ctx [] :: example_world ctx"
  let ?A = "builtin_load_plugin example_env"
  let ?B = "thirdparty_load_plugin example_env"
  let ?s1 = "snd (?A ?n None None ?s)"
  let ?es = "[MissingPluginException ?n
               ''No module named pybuilder.plugins.vcs:https://example.org/plugin.git_plugin'']"
  have a: "missing_run [?A] ?n None None ?s = Some (?es, ?s1)"
    by (simp add: example_defs)
  have b: "?B ?n None None ?s1 = (Inl (UnspecifiedPluginNameException ?n), ?s1)"
    by (simp add: example_defs)
  have c: "\<not> isinstance_MissingPluginException (UnspecifiedPluginNameException ?n)"
    by simp
  from dispatching_propagates_other_errors [of "[?A]" ?n None None ?s ?es ?s1 ?B
      "UnspecifiedPluginNameException ?n" ?s1 "[downloading_load_plugin example_env]"] a b c
  have "dispatching_load_plugin [?A, ?B, downloading_load_plugin example_env] ?n None None ?s
      = (Inl (UnspecifiedPluginNameException ?n), ?s1)"
    by simp
  with a c show ?thesis by simp
qed

subsection \<open>The downloading loader\<close>




text \<open>
  Claim C10. Whenever the installation fails, because the name carries neither
  protocol or because the installer exits with a nonzero status, the downloading loader
  raises nothing and returns \<^verbatim>\<open>None\<close>; a dispatching loader that reaches the downloading
  loader as its final strategy, the earlier ones having reported a missing plugin,
  returns \<^verbatim>\<open>None\<close> to its caller.
\<close>

theorem downloading_returns_None_when_install_fails:
  assumes "(\<not> startswith name PYPI_PLUGIN_PROTOCOL \<and> \<not> startswith name VCS_PLUGIN_PROTOCOL)
           \<or> fst (fst (execute_command env (install_cmd name version) (world s))) \<noteq> 0"
  shows "fst (downloading_load_plugin env name version plugin_module_name s) = Inr None
         \<and> (missing_run before name version plugin_module_name s0 = Some (es, s)
            \<longrightarrow> fst (dispatching_load_plugin (before @ [downloading_load_plugin env])
                        name version plugin_module_name s0) = Inr None)"
proof -
  have down: "fst (downloading_load_plugin env name version plugin_module_name s) = Inr None"
    using assms
    by (auto simp: downloading_load_plugin_def install_external_plugin_def run_command_def
        logger_log_def Let_def split: prod.splits)
  have "missing_run before name version plugin_module_name s0 = Some (es, s)
        \<Longrightarrow> fst (dispatching_load_plugin (before @ [downloading_load_plugin env])
                        name version plugin_module_name s0) = Inr None"
    using down dispatching_loop_skips [of before name version plugin_module_name s0 es s
        "[downloading_load_plugin env]" None]
    by (cases "downloading_load_plugin env name version plugin_module_name s")
       (simp add: dispatching_load_plugin_def)
  with down show ?thesis by blast
qed

theorem downloading_returns_None_when_install_fails_witness:
  "fst (fst (execute_command example_env (install_cmd ''pypi:example-plugin'' (Some ''==1.0''))
               (world (snd (the (missing_run
                  [builtin_load_plugin example_env, thirdparty_load_plugin example_env]
                  ''pypi:example-plugin'' (Some ''==1.0'') None (example_ctx []))))))) \<noteq> 0
   \<and> missing_run [builtin_load_plugin example_env, thirdparty_load_plugin example_env]
         ''pypi:example-plugin'' (Some ''==1.0'') None (example_ctx []) \<noteq> None
   \<and> fst (default_plugin_loader example_env ''pypi:example-plugin'' (Some ''==1.0'') None
            (example_ctx [])) = Inr None
   \<and> fst (downloading_load_plugin example_env ''plain-name'' None None (example_ctx [])) = Inr None"
proof -
  let ?n = "''pypi:example-plugin''"
  let ?v = "Some ''==1.0''"
  let ?init = "example_ctx [] :: example_world ctx"
  let ?A = "builtin_load_plugin example_env"
  let ?B = "thirdparty_load_plugin example_env"
  let ?s = "snd (?B ?n ?v None (snd (?A ?n ?v None ?init)))"
  let ?es = "[MissingPluginException ?n ''No module named pybuilder.plugins.pypi:example-plugin_plugin'',
              MissingPluginException ?n ''No module named example-plugin'']"
  have run: "missing_run [?A, ?B] ?n ?v None ?init = Some (?es, ?s)"
    by (simp add: example_defs)
  have fail: "(\<not> startswith ?n PYPI_PLUGIN_PROTOCOL \<and> \<not> startswith ?n VCS_PLUGIN_PROTOCOL)
           \<or> fst (fst (execute_command example_env (install_cmd ?n ?v) (world ?s))) \<noteq> 0"
    by (simp add: example_defs)
  have fail2: "(\<not> startswith ''plain-name'' PYPI_PLUGIN_PROTOCOL
                 \<and> \<not> startswith ''plain-name'' VCS_PLUGIN_PROTOCOL)
           \<or> fst (fst (execute_command example_env (install_cmd ''plain-name'' None) (world ?init))) \<noteq> 0"
    by (simp add: example_defs)
  from downloading_returns_None_when_install_fails [OF fail, of None "[?A, ?B]" ?init ?es] run
  have r1: "fst (dispatching_load_plugin ([?A, ?B] @ [downloading_load_plugin example_env])
                   ?n ?v None ?init) = Inr None"
    by blast
  from downloading_returns_None_when_install_fails [OF fail2, of None]
  have r2: "fst (downloading_load_plugin example_env ''plain-name'' None None ?init) = Inr None"
    by blast
  have f: "fst (fst (execute_command example_env (install_cmd ?n ?v) (world ?s))) \<noteq> 0"
    by (simp add: example_defs)
  from run r1 r2 f show ?thesis
    by (simp add: default_plugin_loader_def)
qed

subsection \<open>Identifiers with the vcs protocol\<close>




subsection \<open>The version gate\<close>

lemma release_1_9_0_outside:
  "release_specifier_contains ''>=2.0,<3.0'' ''1.9.0'' = Inr False"
  by (simp add: release_specifier_contains_def parse_release_def parse_number_def digit_of_def
      specifier_holds_def strip_def)

text \<open>
  Claim C7. The version gate passes every module that declares no compatibility
  requirement. For a module declaring \<open>>=2.0,<3.0\<close>, with the running version 1.9.0, the
  gate raises an IncompatiblePluginException carrying the plugin name, the declared
  requirement and the running version, and so does loading that module.
\<close>

theorem version_gate:
  "(\<not> truthy (pyb_version_attr plugin_module)
      \<longrightarrow> check_plugin_version env plugin_module plugin_name = Inr ())
   \<and> (pyb_version_attr plugin_module = Some ''>=2.0,<3.0''
        \<and> specifier_contains env = release_specifier_contains \<and> PYB_VERSION env = ''1.9.0''
      \<longrightarrow> check_plugin_version env plugin_module plugin_name
            = Inl (IncompatiblePluginException plugin_name ''>=2.0,<3.0'' ''1.9.0'')
          \<and> (import_module env module_name (world s) = (Inr plugin_module, w')
             \<longrightarrow> fst (load_plugin env module_name plugin_name s)
                   = Inl (IncompatiblePluginException plugin_name ''>=2.0,<3.0'' ''1.9.0'')))"
proof (intro conjI impI)
  assume "\<not> truthy (pyb_version_attr plugin_module)"
  then show "check_plugin_version env plugin_module plugin_name = Inr ()"
    by (cases "pyb_version_attr plugin_module") (simp_all add: check_plugin_version_def)
next
  assume h: "pyb_version_attr plugin_module = Some ''>=2.0,<3.0''
        \<and> specifier_contains env = release_specifier_contains \<and> PYB_VERSION env = ''1.9.0''"
  then show c: "check_plugin_version env plugin_module plugin_name
            = Inl (IncompatiblePluginException plugin_name ''>=2.0,<3.0'' ''1.9.0'')"
    by (simp add: check_plugin_version_def release_1_9_0_outside)
  assume "import_module env module_name (world s) = (Inr plugin_module, w')"
  with c show "fst (load_plugin env module_name plugin_name s)
                   = Inl (IncompatiblePluginException plugin_name ''>=2.0,<3.0'' ''1.9.0'')"
    by (simp add: load_plugin_def py_import_def)
qed

theorem version_gate_witness:
  "\<not> truthy (pyb_version_attr example_module)
   \<and> check_plugin_version example_env example_module ''example'' = Inr ()
   \<and> pyb_version_attr versioned_module = Some ''>=2.0,<3.0''
   \<and> specifier_contains example_env = release_specifier_contains
   \<and> PYB_VERSION example_env = ''1.9.0''
   \<and> import_module example_env ''old_plugin'' (world (example_ctx [(''old_plugin'', versioned_module)]))
       = (Inr versioned_module, [(''old_plugin'', versioned_module)])
   \<and> check_plugin_version example_env versioned_module ''old''
       = Inl (IncompatiblePluginException ''old'' ''>=2.0,<3.0'' ''1.9.0'')
   \<and> fst (load_plugin example_env ''old_plugin'' ''old'' (example_ctx [(''old_plugin'', versioned_module)]))
       = Inl (IncompatiblePluginException ''old'' ''>=2.0,<3.0'' ''1.9.0'')"
proof -
  have a: "\<not> truthy (pyb_version_attr example_module)" by (simp add: example_module_def)
  have b: "pyb_version_attr versioned_module = Some ''>=2.0,<3.0''
        \<and> specifier_contains example_env = release_specifier_contains
        \<and> PYB_VERSION example_env = ''1.9.0''"
    by (simp add: versioned_module_def example_env_def)
  have c: "import_module example_env ''old_plugin'' (world (example_ctx [(''old_plugin'', versioned_module)]))
       = (Inr versioned_module, [(''old_plugin'', versioned_module)])"
    by (simp add: example_env_def example_ctx_def)
  from version_gate [of example_module example_env "''example''"] a
  have r1: "check_plugin_version example_env example_module ''example'' = Inr ()" by blast
  from version_gate [of versioned_module example_env "''old''" "''old_plugin''"
      "example_ctx [(''old_plugin'', versioned_module)]" "[(''old_plugin'', versioned_module)]"] b c
  have r2: "check_plugin_version example_env versioned_module ''old''
       = Inl (IncompatiblePluginException ''old'' ''>=2.0,<3.0'' ''1.9.0'')
      \<and> fst (load_plugin example_env ''old_plugin'' ''old'' (example_ctx [(''old_plugin'', versioned_module)]))
       = Inl (IncompatiblePluginException ''old'' ''>=2.0,<3.0'' ''1.9.0'')"
    by blast
  from a b c r1 r2 show ?thesis by blast
qed

subsection \<open>The plugin registry\<close>



text \<open>
  Claim C8. For an identifier already in the registry, \<open>require_plugin\<close> returns at once
  and leaves the reactor as it was: the registry, the trace of imports and the trace of
  registrations are unchanged.
\<close>

theorem require_plugin_idempotent:
  "plugin \<in> set (plugins r) \<Longrightarrow> require_plugin env plugin version plugin_module_name r = (Inr (), r)"
  by (simp add: require_plugin_def)

theorem require_plugin_idempotent_witness:
  "''python.core'' \<in> set (plugins ((reactor_init example_env None (example_ctx []))
                                     \<lparr>plugins := [''python.core'']\<rparr>))
   \<and> require_plugin example_env ''python.core'' None None
        ((reactor_init example_env None (example_ctx []))\<lparr>plugins := [''python.core'']\<rparr>)
     = (Inr (), (reactor_init example_env None (example_ctx []))\<lparr>plugins := [''python.core'']\<rparr>)"
proof -
  have h: "''python.core'' \<in> set (plugins ((reactor_init example_env None (example_ctx []))
                                     \<lparr>plugins := [''python.core'']\<rparr>))"
    by simp
  from require_plugin_idempotent [OF h, of example_env None None] h show ?thesis by blast
qed







subsection \<open>Graph assembly\<close>

text \<open>
  The dictionary built by the first pass holds, for every name, the injected
  dependencies in the order of the specification's wording.
\<close>

lemma add_task_dependency_loop_get:
  "dict_get (add_task_dependency_loop ns ob opt itd) k =
   dict_get itd k @ map (\<lambda>t. \<lparr>td_name = TObj ob, td_optional = opt\<rparr>)
                        (filter (\<lambda>t. target_name t = k) ns)"
proof (induction ns arbitrary: itd)
  case Nil
  then show ?case by simp
next
  case (Cons n ns)
  have step: "\<And>name x.
      dict_get ((if name \<notin> dom itd then itd(name \<mapsto> []) else itd)
                  (name \<mapsto> (case (if name \<notin> dom itd then itd(name \<mapsto> []) else itd) name of
                                None \<Rightarrow> [] | Some ds \<Rightarrow> ds) @ [x])) k
      = dict_get itd k @ (if name = k then [x] else [])"
    by (auto simp: dict_get_def dom_def split: option.splits)
  show ?case
    apply (simp only: add_task_dependency_loop.simps Let_def Cons.IH step)
    apply (simp add: target_name_def)
    done
qed

lemma dependents_loop_get:
  "dict_get (dependents_loop ds ob itd) k =
   dict_get itd k @
   concat (map (\<lambda>d. map (\<lambda>(t, opt). \<lparr>td_name = TObj ob, td_optional = opt\<rparr>)
                       (filter (\<lambda>(t, opt). target_name t = k) (resolve_item d))) ds)"
proof (induction ds arbitrary: itd)
  case Nil
  then show ?case by simp
next
  case (Cons d ds)
  show ?case
  proof (cases d)
    case (Plain t)
    then show ?thesis
      by (simp add: Cons.IH add_task_dependency_def add_task_dependency_loop_get
          del: add_task_dependency_loop.simps)
  next
    case (Optional w)
    then show ?thesis
      by (simp add: Cons.IH add_task_dependency_def add_task_dependency_loop_get
          filter_map comp_def del: add_task_dependency_loop.simps)
  qed
qed

lemma pass1_get:
  "dict_get (pass1 cs itd) k = dict_get itd k @ injected_dependencies cs k"
proof (induction cs arbitrary: itd)
  case Nil
  then show ?case by (simp add: injected_dependencies_def)
next
  case (Cons c cs)
  have step: "dict_get (if has_role (task_attr c)
        then (case dependents_attr c of
                None \<Rightarrow> itd
              | Some dependents \<Rightarrow>
                  if dependents = [] then itd else dependents_loop dependents (c_obj c) itd)
        else itd) k
      = dict_get itd k @ (if has_role (task_attr c) then dependents_edges c k else [])"
    by (simp add: dependents_edges_def attr_items_def dependents_loop_get split: option.splits)
  show ?case
    by (simp add: Cons.IH step) (simp add: injected_dependencies_def)
qed

lemma depends_loop_eq:
  "depends_loop ds acc =
   acc @ concat (map (\<lambda>d. map (\<lambda>(t, opt). \<lparr>td_name = t, td_optional = opt\<rparr>) (resolve_item d)) ds)"
proof (induction ds arbitrary: acc)
  case Nil
  then show ?case by simp
next
  case (Cons d ds)
  show ?case by (cases d) (simp_all add: Cons.IH comp_def)
qed

lemma make_task_dependencies:
  "t_dependencies (make_task (pass1 cs Map.empty) c) =
   declared_dependencies c @ injected_dependencies cs (normalize_candidate_name (c_obj c))"
proof -
  have "dict_get (pass1 cs Map.empty) (normalize_candidate_name (c_obj c)) =
        injected_dependencies cs (normalize_candidate_name (c_obj c))"
    using pass1_get [of cs Map.empty] by (simp add: dict_get_def)
  then show ?thesis
    by (simp add: make_task_def Let_def declared_dependencies_def attr_items_def depends_loop_eq
        dict_get_def split: option.splits)
qed

lemma collect_candidate_registered:
  "collect_candidate env itd c s = (r, s') \<Longrightarrow>
   \<exists>rs. registered s' = registered s @ rs \<and>
        (\<forall>t. RegisterTask t \<in> set rs \<longrightarrow> has_role (task_attr c) \<and> t = make_task itd c)"
  by (auto simp: collect_candidate_def Let_def em_register_task_def em_register_action_def
      em_register_initializer_def logger_log_def split: if_splits prod.splits)

lemma pass2_registered:
  "pass2 env itd cs s = (res, s') \<Longrightarrow>
   \<exists>rs. registered s' = registered s @ rs \<and>
        (\<forall>t. RegisterTask t \<in> set rs \<longrightarrow> (\<exists>c\<in>set cs. has_role (task_attr c) \<and> t = make_task itd c))"
proof (induction cs arbitrary: s)
  case Nil
  then show ?case by simp
next
  case (Cons c cs)
  obtain r s1 where c1: "collect_candidate env itd c s = (r, s1)"
    by (cases "collect_candidate env itd c s")
  from collect_candidate_registered [OF c1] obtain rs1 where
    rs1: "registered s1 = registered s @ rs1"
    and t1: "\<forall>t. RegisterTask t \<in> set rs1 \<longrightarrow> has_role (task_attr c) \<and> t = make_task itd c"
    by blast
  show ?case
  proof (cases r)
    case (Some e)
    with Cons.prems c1 have "s' = s1" by simp
    with rs1 t1 show ?thesis by auto
  next
    case None
    with Cons.prems c1 have "pass2 env itd cs s1 = (res, s')" by simp
    from Cons.IH [OF this] obtain rs2 where
      rs2: "registered s' = registered s1 @ rs2"
      and t2: "\<forall>t. RegisterTask t \<in> set rs2 \<longrightarrow> (\<exists>c\<in>set cs. has_role (task_attr c) \<and> t = make_task itd c)"
      by blast
    have "registered s' = registered s @ (rs1 @ rs2)" using rs1 rs2 by simp
    moreover have "\<forall>t. RegisterTask t \<in> set (rs1 @ rs2) \<longrightarrow>
        (\<exists>c'\<in>set (c # cs). has_role (task_attr c') \<and> t = make_task itd c')"
      using t1 t2 by auto
    ultimately show ?thesis by blast
  qed
qed

text \<open>
  Claim C9. Every task that the graph assembler hands to the execution manager comes
  from a candidate carrying the task marker, and its dependency list is that candidate's
  declared forward dependencies, in declared order, followed by the dependencies
  injected for its name by the first pass, in the order they were accumulated.
\<close>

theorem task_dependencies_declared_then_injected:
  assumes "collect_tasks_and_actions_and_initializers env (Some project_module) s = (res, s')"
    and "RegisterTask t \<in> set (drop (length (registered s)) (registered s'))"
  shows "\<exists>c \<in> set (members project_module).
           has_role (task_attr c) \<and> t_callable t = c_obj c \<and>
           t_name t = normalize_candidate_name (c_obj c) \<and>
           t_dependencies t =
             declared_dependencies c @ injected_dependencies (members project_module) (t_name t)"
proof -
  let ?cs = "members project_module"
  from assms(1) have p2: "pass2 env (pass1 ?cs Map.empty) ?cs s = (res, s')"
    by (simp add: collect_tasks_and_actions_and_initializers_def)
  from pass2_registered [OF p2] obtain rs where
    rs: "registered s' = registered s @ rs"
    and ts: "\<forall>t. RegisterTask t \<in> set rs \<longrightarrow>
               (\<exists>c\<in>set ?cs. has_role (task_attr c) \<and> t = make_task (pass1 ?cs Map.empty) c)"
    by blast
  from assms(2) rs have "RegisterTask t \<in> set rs" by simp
  with ts obtain c where c: "c \<in> set ?cs" "has_role (task_attr c)"
    and t: "t = make_task (pass1 ?cs Map.empty) c" by blast
  have nm: "t_name t = normalize_candidate_name (c_obj c)" and cl: "t_callable t = c_obj c"
    using t by (simp_all add: make_task_def Let_def)
  have "t_dependencies t = declared_dependencies c @ injected_dependencies ?cs (t_name t)"
    using make_task_dependencies [of ?cs c] t nm by simp
  with c nm cl show ?thesis by blast
qed

theorem task_dependencies_declared_then_injected_witness:
  "RegisterTask
     \<lparr>t_name = Some ''package'', t_callable = c_obj package_task,
      t_dependencies =
        [\<lparr>td_name = TStr ''prepare'', td_optional = False\<rparr>,
         \<lparr>td_name = TStr ''docs'', td_optional = True\<rparr>,
         \<lparr>td_name = TObj (c_obj compile_task), td_optional = False\<rparr>,
         \<lparr>td_name = TObj (c_obj compile_task), td_optional = True\<rparr>],
      t_description = ''Packages the project''\<rparr>
     \<in> set (drop (length (registered (example_ctx [])))
               (registered (snd (collect_tasks_and_actions_and_initializers example_env
                                   (Some example_module) (example_ctx [])))))
   \<and> declared_dependencies package_task
         @ injected_dependencies (members example_module) (Some ''package'')
       = [\<lparr>td_name = TStr ''prepare'', td_optional = False\<rparr>,
          \<lparr>td_name = TStr ''docs'', td_optional = True\<rparr>,
          \<lparr>td_name = TObj (c_obj compile_task), td_optional = False\<rparr>,
          \<lparr>td_name = TObj (c_obj compile_task), td_optional = True\<rparr>]"
proof -
  let ?deps = "[\<lparr>td_name = TStr ''prepare'', td_optional = False\<rparr>,
         \<lparr>td_name = TStr ''docs'', td_optional = True\<rparr>,
         \<lparr>td_name = TObj (c_obj compile_task), td_optional = False\<rparr>,
         \<lparr>td_name = TObj (c_obj compile_task), td_optional = True\<rparr>]"
  let ?t = "\<lparr>t_name = Some ''package'', t_callable = c_obj package_task,
      t_dependencies = ?deps, t_description = ''Packages the project''\<rparr>"
  let ?run = "collect_tasks_and_actions_and_initializers example_env (Some example_module)
                (example_ctx [])"
  have h1: "?run = (fst ?run, snd ?run)" by simp
  have h2: "RegisterTask ?t \<in> set (drop (length (registered (example_ctx []))) (registered (snd ?run)))"
    by (simp add: assembly_defs)
  from task_dependencies_declared_then_injected [OF h1 h2]
  obtain c where c: "c \<in> set (members example_module)"
    and callable: "t_callable ?t = c_obj c"
    and deps: "t_dependencies ?t =
                 declared_dependencies c @ injected_dependencies (members example_module) (t_name ?t)"
    by blast
  from c have "c = compile_task \<or> c = package_task" by (simp add: example_module_def)
  moreover have "c_obj package_task \<noteq> c_obj compile_task"
    by (simp add: compile_task_def package_task_def)
  ultimately have "c = package_task" using callable by auto
  with deps have "declared_dependencies package_task
         @ injected_dependencies (members example_module) (Some ''package'') = ?deps"
    by simp
  with h2 show ?thesis by blast
qed

end
